theory Spec2Isabelle
  imports Complex_Main "HOL-Library.AList"
begin

section \<open>The web-socket gateway of \<^verbatim>\<open>src/main/api/ws.ts\<close>\<close>

text \<open>
  The module keeps two tables, \<^verbatim>\<open>subs\<close> and \<^verbatim>\<open>connectionMonitors\<close>, and registers
  four listeners: the \<^verbatim>\<open>message\<close> and \<^verbatim>\<open>close\<close> listeners of every socket, the callback
  handed to \<^verbatim>\<open>provider.send\<close>, and the \<^verbatim>\<open>data:subscription\<close> listener of the provider.
  Each listener is a function from the tables to the new tables and the list of calls
  it makes on the world around it (the socket, the provider, the tray, the logs), in
  the order it makes them.

  The \<^verbatim>\<open>message\<close> listener is an \<^verbatim>\<open>async\<close> function with two \<^verbatim>\<open>await\<close>s. Between
  such a point and the resumption any other listener may run, so the listener is cut
  at its \<^verbatim>\<open>await\<close>s: every piece takes the tables as they are when it starts, and says
  where it suspends. The value an \<^verbatim>\<open>await\<close> yields is the argument of the next piece.
\<close>

subsection \<open>Values\<close>

text \<open>
  Fields that the source types as \<^verbatim>\<open>any\<close> (the request id, the parameters, the result
  of a response) hold a JSON value. The source looks at such a value in two ways only:
  its truthiness, and its use as a property key.
\<close>

datatype jsval =
    JNull
  | JBool bool
  | JNum rat
  | JStr string
  | JArr "jsval list"
  | JObj "(string \<times> jsval) list"

fun truthy :: "jsval \<Rightarrow> bool" where
  "truthy JNull = False"
| "truthy (JBool b) = b"
| "truthy (JNum r) = (r \<noteq> 0)"
| "truthy (JStr s) = (s \<noteq> [])"
| "truthy (JArr vs) = True"
| "truthy (JObj fs) = True"

text \<open>An optional field is absent (\<^verbatim>\<open>undefined\<close>, falsy) or holds its value.\<close>

fun truthy_string :: "string option \<Rightarrow> bool" where
  "truthy_string None = False"
| "truthy_string (Some s) = (s \<noteq> [])"

fun truthy_boolean :: "bool option \<Rightarrow> bool" where
  "truthy_boolean None = False"
| "truthy_boolean (Some b) = b"

fun truthy_result :: "jsval option \<Rightarrow> bool" where
  "truthy_result None = False"
| "truthy_result (Some v) = truthy v"

text \<open>The text a template literal puts in for an optional string.\<close>

fun interpolate :: "string option \<Rightarrow> string" where
  "interpolate None = ''undefined''"
| "interpolate (Some s) = s"

subsection \<open>Payloads, sockets and tables\<close>

record FrameExtension =
  ext_id :: string

text \<open>
  \<^verbatim>\<open>ExtensionPayload\<close>, what \<^verbatim>\<open>validPayload\<close> returns; \<^verbatim>\<open>raw_frameOrigin\<close> is the field
  \<^verbatim>\<open>__frameOrigin\<close> and \<^verbatim>\<open>raw_extensionConnecting\<close> is \<^verbatim>\<open>__extensionConnecting\<close>.
\<close>

record ExtensionPayload =
  raw_id :: jsval
  raw_jsonrpc :: string
  raw_method :: string
  raw_params :: "jsval list"
  raw_chainId :: "string option"
  raw_frameOrigin :: "string option"
  raw_extensionConnecting :: "bool option"

text \<open>The payload \<^verbatim>\<open>updateOrigin\<close> returns and the provider receives; \<^verbatim>\<open>rpc_origin\<close> is \<^verbatim>\<open>_origin\<close>.\<close>

record RPCRequestPayload =
  rpc_id :: jsval
  rpc_jsonrpc :: string
  rpc_method :: string
  rpc_params :: "jsval list"
  rpc_chainId :: "string option"
  rpc_origin :: string

record EVMError =
  err_message :: string
  err_code :: "int option"

record RPCResponsePayload =
  res_id :: jsval
  res_jsonrpc :: string
  res_result :: "jsval option"
  res_error :: "EVMError option"

text \<open>\<^verbatim>\<open>RPC.Susbcription.Response\<close>; \<^verbatim>\<open>push_subscription\<close> is \<^verbatim>\<open>params.subscription\<close>.\<close>

record SubscriptionResponse =
  push_jsonrpc :: string
  push_method :: string
  push_subscription :: string
  push_result :: jsval

datatype ready_state = CONNECTING | OPEN | CLOSING | CLOSED

text \<open>
  A socket is an object: \<^verbatim>\<open>ref\<close> is its identity. The fields \<^verbatim>\<open>id\<close>, \<^verbatim>\<open>origin\<close> and
  \<^verbatim>\<open>frameExtension\<close> are assigned once, by \<^verbatim>\<open>handler\<close>, before any listener exists,
  and travel with the reference. \<^verbatim>\<open>readyState\<close> changes under the listeners, so it is
  read from the world.
\<close>

record FrameWebSocket =
  ref :: nat
  sock_id :: string
  sock_origin :: "string option"
  sock_frameExtension :: "FrameExtension option"

record Subscription =
  sub_originId :: string
  sub_socket :: FrameWebSocket

text \<open>A timer the runtime holds: its handle, its delay in milliseconds, and the origin its callback ends the session of.\<close>

record timeout =
  handle :: nat
  delay :: nat
  session_of :: string

text \<open>
  \<^verbatim>\<open>subs\<close> is a plain object used as a dictionary. Its own properties are \<^verbatim>\<open>subs\<close>
  below: entries with distinct keys, in the order the keys were created. Its prototype
  is \<^verbatim>\<open>Object.prototype\<close> until an assignment to the key \<^verbatim>\<open>__proto__\<close> replaces it:
  \<^verbatim>\<open>subs_proto\<close> is the subscription object such an assignment has put in its place.
\<close>

record world =
  subs :: "(string \<times> Subscription) list"
  subs_proto :: "Subscription option"
  connectionMonitors :: "string \<rightharpoonup> nat"
  timers :: "timeout list"
  next_handle :: nat
  readyState :: "nat \<Rightarrow> ready_state"

definition init :: world where
  "init = \<lparr>subs = [], subs_proto = None, connectionMonitors = Map.empty, timers = [],
           next_handle = 0,
           readyState = (\<lambda>_. OPEN)\<rparr>"

subsection \<open>Calls on the world around the module\<close>

datatype frame = Response RPCResponsePayload | Push SubscriptionResponse

datatype log_line =
    Req bool string string "jsval list"
  | Res bool string string "jsval option + EVMError option"

datatype effect =
    ConsoleWarn string
  | LogInfo log_line
  | ParseOrigin "string option"
  | UpdateOrigin ExtensionPayload string "bool option"
  | SocketSend nat frame
  | ProviderSend RPCRequestPayload "(FrameWebSocket \<times> string) option"
  | ToggleTray
  | EndOriginSession string
  | TypeError
  | WebSocketError

text \<open>
  \<^verbatim>\<open>SocketSend r f\<close> is \<^verbatim>\<open>socket.send(JSON.stringify(f))\<close> writing the frame to the open
  socket \<^verbatim>\<open>r\<close>. \<^verbatim>\<open>ProviderSend p c\<close> is \<^verbatim>\<open>provider.send(p, callback)\<close>: \<^verbatim>\<open>c\<close> holds the
  socket and the origin the callback closes over, and is \<^verbatim>\<open>None\<close> where the source
  passes no callback. \<^verbatim>\<open>TypeError\<close> ends a listener that reads a property of
  \<^verbatim>\<open>undefined\<close>, and \<^verbatim>\<open>WebSocketError\<close> one whose \<^verbatim>\<open>send\<close> throws.
\<close>

fun is_ProviderSend :: "effect \<Rightarrow> bool" where
  "is_ProviderSend (ProviderSend p c) = True"
| "is_ProviderSend _ = False"

fun is_SocketSend :: "effect \<Rightarrow> bool" where
  "is_SocketSend (SocketSend r f) = True"
| "is_SocketSend _ = False"

fun is_identity :: "effect \<Rightarrow> bool" where
  "is_identity (ParseOrigin r) = True"
| "is_identity (UpdateOrigin p origin c) = True"
| "is_identity _ = False"

subsection \<open>Collaborators\<close>

text \<open>
  What the module imports and calls without waiting. \<^verbatim>\<open>origins\<close>, \<^verbatim>\<open>validPayload\<close>,
  \<^verbatim>\<open>protectedMethods\<close> and \<^verbatim>\<open>accounts\<close> are other modules of the application,
  \<^verbatim>\<open>isHexString\<close> is a library function, \<^verbatim>\<open>parseInt\<close> and the conversion of a value to
  a property key belong to the language: all are parameters here.
  \<^verbatim>\<open>isKnownExtension\<close> and \<^verbatim>\<open>isTrusted\<close> are awaited; their answers are the arguments
  of the pieces that resume after them.
\<close>

record env =
  validPayload :: "string \<Rightarrow> ExtensionPayload option"
  parseOrigin :: "string option \<Rightarrow> string"
  updateOrigin :: "ExtensionPayload \<Rightarrow> string \<Rightarrow> bool option \<Rightarrow> RPCRequestPayload \<times> string"
  isHexString :: "string \<Rightarrow> bool"
  protectedMethods :: "string list"
  getSelectedAddresses :: "string list"
  LOG_TRAFFIC :: "string option"
  parseInt16 :: "string \<Rightarrow> jsval"
  toString :: "jsval \<Rightarrow> string"

definition logTraffic :: "env \<Rightarrow> string \<Rightarrow> bool" where
  "logTraffic e origin = (LOG_TRAFFIC e = Some ''true'' \<or> LOG_TRAFFIC e = Some origin)"

text \<open>\<^verbatim>\<open>subs[v]\<close>: a string is its own key, any other value is converted first.\<close>

fun property_key :: "env \<Rightarrow> jsval \<Rightarrow> string" where
  "property_key e (JStr s) = s"
| "property_key e v = toString e v"

subsection \<open>The object \<^verbatim>\<open>subs\<close>\<close>

text \<open>
  \<^verbatim>\<open>Object.keys\<close> lists the own keys: first those that are array indices (the decimal
  numerals without leading zero up to \<open>2\<^sup>3\<^sup>2 - 2\<close>) in ascending order, then the others
  in the order they were created.
\<close>

definition digit :: "char \<Rightarrow> nat option" where
  "digit = map_of (zip ''0123456789'' [0, 1, 2, 3, 4, 5, 6, 7, 8, 9])"

definition array_index :: "string \<Rightarrow> nat option" where
  "array_index s =
     (case those (map digit s) of
        None \<Rightarrow> None
      | Some ds \<Rightarrow>
          if ds \<noteq> [] \<and> (ds = [0] \<or> take 1 ds \<noteq> [0])
             \<and> foldl (\<lambda>a d. 10 * a + d) 0 ds \<le> 4294967294
          then Some (foldl (\<lambda>a d. 10 * a + d) 0 ds) else None)"

definition is_index :: "string \<times> 'a \<Rightarrow> bool" where
  "is_index p = (array_index (fst p) \<noteq> None)"

definition index_of :: "string \<times> 'a \<Rightarrow> nat" where
  "index_of p = (case array_index (fst p) of None \<Rightarrow> 0 | Some n \<Rightarrow> n)"

definition Object_entries :: "(string \<times> 'a) list \<Rightarrow> (string \<times> 'a) list" where
  "Object_entries tbl =
     sort_key index_of (filter is_index tbl) @ filter (\<lambda>p. \<not> is_index p) tbl"

definition Object_keys :: "(string \<times> 'a) list \<Rightarrow> string list" where
  "Object_keys tbl = map fst (Object_entries tbl)"

text \<open>
  What \<^verbatim>\<open>subs[k]\<close> yields: \<^verbatim>\<open>undefined\<close>, a subscription object, or something found on
  the prototype chain that is no subscription. An own property comes first. Behind it
  is the subscription object that has been made the prototype, if any, with its
  fields \<^verbatim>\<open>socket\<close> and \<^verbatim>\<open>originId\<close>, and behind that \<^verbatim>\<open>Object.prototype\<close> with its
  functions and the accessor \<^verbatim>\<open>__proto__\<close>, which yields the prototype of \<^verbatim>\<open>subs\<close>.
\<close>

definition Object_prototype :: "string list" where
  "Object_prototype =
     [''constructor'', ''__defineGetter__'', ''__defineSetter__'', ''hasOwnProperty'',
      ''__lookupGetter__'', ''__lookupSetter__'', ''isPrototypeOf'', ''propertyIsEnumerable'',
      ''toString'', ''valueOf'', ''__proto__'', ''toLocaleString'']"

datatype property = Undefined | Entry Subscription | Socket FrameWebSocket | Text string | Builtin

definition inherited :: "Subscription option \<Rightarrow> string \<Rightarrow> property" where
  "inherited proto k =
     (case proto of
        None \<Rightarrow> if k \<in> set Object_prototype then Builtin else Undefined
      | Some p \<Rightarrow>
          if k = ''socket'' then Socket (sub_socket p)
          else if k = ''originId'' then Text (sub_originId p)
          else if k = ''__proto__'' then Entry p
          else if k \<in> set Object_prototype then Builtin
          else Undefined)"

definition get ::
  "(string \<times> Subscription) list \<Rightarrow> Subscription option \<Rightarrow> string \<Rightarrow> property"
where
  "get tbl proto k = (case map_of tbl k of Some s \<Rightarrow> Entry s | None \<Rightarrow> inherited proto k)"

fun truthy_property :: "property \<Rightarrow> bool" where
  "truthy_property Undefined = False"
| "truthy_property (Text s) = (s \<noteq> [])"
| "truthy_property (Entry s) = True"
| "truthy_property (Socket x) = True"
| "truthy_property Builtin = True"

text \<open>
  \<^verbatim>\<open>subs[k] = v\<close>: the key \<^verbatim>\<open>__proto__\<close> reaches the accessor of \<^verbatim>\<open>Object.prototype\<close>,
  which makes \<^verbatim>\<open>v\<close> the prototype; any other key becomes or stays an own property.
\<close>

definition put :: "string \<Rightarrow> Subscription \<Rightarrow> world \<Rightarrow> world" where
  "put k v w =
     (if k = ''__proto__'' then w\<lparr>subs_proto := Some v\<rparr>
      else w\<lparr>subs := AList.update k v (subs w)\<rparr>)"

subsection \<open>The socket's \<^verbatim>\<open>send\<close>\<close>

text \<open>
  \<^verbatim>\<open>send\<close> is the method of the \<^verbatim>\<open>ws\<close> library, called here without a callback: it throws
  while the socket is connecting, writes the frame when the socket is open, and
  discards the data when the socket is closing or closed.
\<close>

definition socket_send :: "world \<Rightarrow> FrameWebSocket \<Rightarrow> frame \<Rightarrow> effect list" where
  "socket_send w socket f =
     (case readyState w (ref socket) of
        CONNECTING \<Rightarrow> [WebSocketError]
      | OPEN \<Rightarrow> [SocketSend (ref socket) f]
      | CLOSING \<Rightarrow> []
      | CLOSED \<Rightarrow> [])"

subsection \<open>\<^verbatim>\<open>extendSession\<close> and the timers\<close>

definition clearTimeout :: "nat option \<Rightarrow> timeout list \<Rightarrow> timeout list" where
  "clearTimeout h ts = (case h of None \<Rightarrow> ts | Some k \<Rightarrow> filter (\<lambda>t. handle t \<noteq> k) ts)"

definition extendSession :: "string \<Rightarrow> world \<Rightarrow> world" where
  "extendSession originId w =
     (if originId \<noteq> [] then
        w\<lparr>timers := clearTimeout (connectionMonitors w originId) (timers w)
                      @ [\<lparr>handle = next_handle w, delay = 60 * 1000, session_of = originId\<rparr>],
          connectionMonitors := (connectionMonitors w)(originId \<mapsto> next_handle w),
          next_handle := Suc (next_handle w)\<rparr>
      else w)"

text \<open>The runtime runs the callback of a pending timer: the timer is gone and the session is ended.\<close>

definition fire :: "nat \<Rightarrow> world \<Rightarrow> effect list \<times> world" where
  "fire h w =
     (map (\<lambda>t. EndOriginSession (session_of t)) (filter (\<lambda>t. handle t = h) (timers w)),
      w\<lparr>timers := filter (\<lambda>t. handle t \<noteq> h) (timers w)\<rparr>)"

subsection \<open>\<^verbatim>\<open>handler\<close>: the response sink\<close>

record IncomingMessage =
  headers_origin :: "string option"
  parsed_extension :: "FrameExtension option"

text \<open>\<^verbatim>\<open>handler\<close> names the socket; \<^verbatim>\<open>uuid\<close> is what \<^verbatim>\<open>uuid()\<close> returned and \<^verbatim>\<open>parsed_extension\<close> what \<^verbatim>\<open>parseFrameExtension(req)\<close> returned.\<close>

definition handler :: "nat \<Rightarrow> string \<Rightarrow> IncomingMessage \<Rightarrow> FrameWebSocket" where
  "handler r uuid req =
     \<lparr>ref = r, sock_id = uuid, sock_origin = headers_origin req,
      sock_frameExtension = parsed_extension req\<rparr>"

text \<open>\<^verbatim>\<open>res\<close> calls \<^verbatim>\<open>send\<close> on an open socket only, where \<^verbatim>\<open>send\<close> writes the frame.\<close>

definition res :: "world \<Rightarrow> FrameWebSocket \<Rightarrow> RPCResponsePayload \<Rightarrow> effect list" where
  "res w socket payload =
     (if readyState w (ref socket) = OPEN then [SocketSend (ref socket) (Response payload)] else [])"

definition error_response :: "jsval \<Rightarrow> string \<Rightarrow> string \<Rightarrow> int \<Rightarrow> RPCResponsePayload" where
  "error_response i v m c =
     \<lparr>res_id = i, res_jsonrpc = v, res_result = None,
      res_error = Some \<lparr>err_message = m, err_code = Some c\<rparr>\<rparr>"

definition result_response :: "jsval \<Rightarrow> string \<Rightarrow> jsval \<Rightarrow> RPCResponsePayload" where
  "result_response i v r =
     \<lparr>res_id = i, res_jsonrpc = v, res_result = Some r, res_error = None\<rparr>"

subsection \<open>The \<^verbatim>\<open>close\<close> listener\<close>

definition unsubscribe_payload :: "string \<Rightarrow> Subscription \<Rightarrow> RPCRequestPayload" where
  "unsubscribe_payload sub s =
     \<lparr>rpc_id = JNum 1, rpc_jsonrpc = ''2.0'', rpc_method = ''eth_unsubscribe'',
      rpc_params = [JStr sub], rpc_chainId = None, rpc_origin = sub_originId s\<rparr>"

text \<open>
  The loop over \<^verbatim>\<open>Object.keys(subs)\<close>: the keys are listed once, before the loop,
  and each is looked up in the table as the loop has left it. Reading \<^verbatim>\<open>.socket.id\<close>
  of anything but a subscription object throws; \<^verbatim>\<open>delete\<close> removes an own property
  and nothing else.
\<close>

fun close_loop ::
  "string \<Rightarrow> Subscription option \<Rightarrow> string list \<Rightarrow> (string \<times> Subscription) list
     \<Rightarrow> effect list \<times> (string \<times> Subscription) list"
where
  "close_loop sid proto [] tbl = ([], tbl)"
| "close_loop sid proto (sub # keys) tbl =
     (case get tbl proto sub of
        Entry s \<Rightarrow>
          if sock_id (sub_socket s) = sid then
            (let (effs, tbl') = close_loop sid proto keys (AList.delete sub tbl)
             in (ProviderSend (unsubscribe_payload sub s) None # effs, tbl'))
          else close_loop sid proto keys tbl
      | _ \<Rightarrow> ([TypeError], tbl))"

definition on_close :: "FrameWebSocket \<Rightarrow> world \<Rightarrow> effect list \<times> world" where
  "on_close socket w =
     (let (effs, tbl) = close_loop (sock_id socket) (subs_proto w) (Object_keys (subs w)) (subs w)
      in (effs, w\<lparr>subs := tbl\<rparr>))"


subsection \<open>The \<^verbatim>\<open>message\<close> listener\<close>

text \<open>Where a piece of the listener stops: at its end, or at one of the two \<^verbatim>\<open>await\<close>s.\<close>

datatype suspended =
    Finished
  | Await_isKnownExtension FrameWebSocket ExtensionPayload FrameExtension
  | Await_isTrusted FrameWebSocket RPCRequestPayload string

definition forward :: "FrameWebSocket \<Rightarrow> RPCRequestPayload \<Rightarrow> string \<Rightarrow> effect list" where
  "forward socket payload origin = [ProviderSend payload (Some (socket, origin))]"

definition first_selected :: "env \<Rightarrow> string option" where
  "first_selected e = (case getSelectedAddresses e of [] \<Rightarrow> None | a # _ \<Rightarrow> Some a)"

definition trust_denied :: "env \<Rightarrow> RPCRequestPayload \<Rightarrow> string \<Rightarrow> RPCResponsePayload" where
  "trust_denied e payload origin =
     error_response (rpc_id payload) (rpc_jsonrpc payload)
       (if \<not> truthy_string (first_selected e) then ''No EvoTradeWallet account selected''
        else ''Permission denied, approve '' @ origin @ '' in EvoTradeWallet to continue'')
       4001"

text \<open>The piece that resumes when \<^verbatim>\<open>isTrusted(payload)\<close> has answered.\<close>

definition on_message_trusted ::
  "env \<Rightarrow> FrameWebSocket \<Rightarrow> RPCRequestPayload \<Rightarrow> string \<Rightarrow> bool \<Rightarrow> world
     \<Rightarrow> effect list \<times> world \<times> suspended"
where
  "on_message_trusted e socket payload origin trusted w =
     (if \<not> trusted then (res w socket (trust_denied e payload origin), w, Finished)
      else (forward socket payload origin, w, Finished))"

definition invalid_chain :: "ExtensionPayload \<Rightarrow> RPCResponsePayload" where
  "invalid_chain rawPayload =
     error_response (raw_id rawPayload) (raw_jsonrpc rawPayload)
       (''Invalid chain id ('' @ interpolate (raw_chainId rawPayload)
          @ ''), chain id must be hex-prefixed string'')
       (- 1)"

text \<open>
  The calls between the extension check and the chain id check: \<^verbatim>\<open>parseOrigin\<close>, the
  traffic log when it is switched on for the origin, and \<^verbatim>\<open>updateOrigin\<close>.
\<close>

definition resolution ::
  "env \<Rightarrow> FrameWebSocket \<Rightarrow> ExtensionPayload \<Rightarrow> string option \<Rightarrow> effect list"
where
  "resolution e socket rawPayload requestOrigin =
     ParseOrigin requestOrigin
     # (if logTraffic e (parseOrigin e requestOrigin)
        then [LogInfo (Req (sock_frameExtension socket \<noteq> None) (parseOrigin e requestOrigin)
                           (raw_method rawPayload) (raw_params rawPayload))]
        else [])
     @ [UpdateOrigin rawPayload (parseOrigin e requestOrigin) (raw_extensionConnecting rawPayload)]"

text \<open>
  The piece from \<^verbatim>\<open>parseOrigin\<close> to the trust check; \<^verbatim>\<open>requestOrigin\<close> is the variable
  of that name as the lines before have set it.
\<close>

definition on_message_origin ::
  "env \<Rightarrow> FrameWebSocket \<Rightarrow> ExtensionPayload \<Rightarrow> string option \<Rightarrow> world
     \<Rightarrow> effect list \<times> world \<times> suspended"
where
  "on_message_origin e socket rawPayload requestOrigin w =
     (let origin = parseOrigin e requestOrigin;
          connecting = raw_extensionConnecting rawPayload;
          (payload, chainId) = updateOrigin e rawPayload origin connecting;
          pre = resolution e socket rawPayload requestOrigin
      in if \<not> isHexString e chainId then
           (pre @ res w socket (invalid_chain rawPayload), w, Finished)
         else
           let w' = (if \<not> truthy_boolean connecting then extendSession (rpc_origin payload) w
                     else w)
           in if origin = ''frame-extension'' \<and> raw_method rawPayload = ''frame_summon'' then
                (pre @ [ToggleTray], w', Finished)
              else if origin = ''frame-extension'' \<and> raw_method rawPayload = ''eth_chainId'' then
                (pre @ res w' socket
                         (result_response (raw_id rawPayload) (raw_jsonrpc rawPayload)
                            (JStr chainId)),
                 w', Finished)
              else if origin = ''frame-extension'' \<and> raw_method rawPayload = ''net_version'' then
                (pre @ res w' socket
                         (result_response (raw_id rawPayload) (raw_jsonrpc rawPayload)
                            (parseInt16 e chainId)),
                 w', Finished)
              else if rpc_method payload \<in> set (protectedMethods e) then
                (pre, w', Await_isTrusted socket payload origin)
              else (pre @ forward socket payload origin, w', Finished))"

definition unknown_extension :: "ExtensionPayload \<Rightarrow> FrameExtension \<Rightarrow> RPCResponsePayload" where
  "unknown_extension rawPayload ext =
     error_response (raw_id rawPayload) (raw_jsonrpc rawPayload)
       (''Permission denied, approve connection from EvoTrade Companion with id ''
          @ ext_id ext @ '' in Frame to continue'')
       4001"

text \<open>The piece that resumes when \<^verbatim>\<open>isKnownExtension(socket.frameExtension)\<close> has answered.\<close>

definition on_message_known ::
  "env \<Rightarrow> FrameWebSocket \<Rightarrow> ExtensionPayload \<Rightarrow> FrameExtension \<Rightarrow> bool \<Rightarrow> world
     \<Rightarrow> effect list \<times> world \<times> suspended"
where
  "on_message_known e socket rawPayload ext known w =
     (if \<not> known then (res w socket (unknown_extension rawPayload ext), w, Finished)
      else if truthy_string (raw_frameOrigin rawPayload) then
        on_message_origin e socket (rawPayload\<lparr>raw_frameOrigin := None\<rparr>)
          (raw_frameOrigin rawPayload) w
      else on_message_origin e socket rawPayload (Some ''frame-extension'') w)"

text \<open>The piece that starts when a frame arrives.\<close>

definition on_message ::
  "env \<Rightarrow> FrameWebSocket \<Rightarrow> string \<Rightarrow> world \<Rightarrow> effect list \<times> world \<times> suspended"
where
  "on_message e socket data w =
     (case validPayload e data of
        None \<Rightarrow> ([ConsoleWarn data], w, Finished)
      | Some rawPayload \<Rightarrow>
          (case sock_frameExtension socket of
             Some ext \<Rightarrow> ([], w, Await_isKnownExtension socket rawPayload ext)
           | None \<Rightarrow> on_message_origin e socket rawPayload (sock_origin socket) w))"

subsection \<open>The callback of \<^verbatim>\<open>provider.send\<close>\<close>

definition unsubscribe_each ::
  "env \<Rightarrow> Subscription option \<Rightarrow> jsval list \<Rightarrow> (string \<times> Subscription) list
     \<Rightarrow> (string \<times> Subscription) list"
where
  "unsubscribe_each e proto ps tbl =
     fold (\<lambda>sub t. if truthy_property (get t proto (property_key e sub))
                    then AList.delete (property_key e sub) t else t) ps tbl"

definition send_callback ::
  "env \<Rightarrow> FrameWebSocket \<Rightarrow> RPCRequestPayload \<Rightarrow> string \<Rightarrow> RPCResponsePayload \<Rightarrow> world
     \<Rightarrow> effect list \<times> world"
where
  "send_callback e socket payload origin response w =
     (let w' = (case res_result response of
                  None \<Rightarrow> w
                | Some r \<Rightarrow>
                    if truthy r then
                      if rpc_method payload = ''eth_subscribe'' then
                        put (property_key e r)
                          \<lparr>sub_originId = rpc_origin payload, sub_socket = socket\<rparr> w
                      else if rpc_method payload = ''eth_unsubscribe'' then
                        w\<lparr>subs := unsubscribe_each e (subs_proto w) (rpc_params payload) (subs w)\<rparr>
                      else w
                    else w)
      in ((if logTraffic e origin
           then [LogInfo (Res (sock_frameExtension socket \<noteq> None) origin (rpc_method payload)
                              (if truthy_result (res_result response)
                               then Inl (res_result response) else Inr (res_error response)))]
           else [])
          @ res w' socket response,
          w'))"

subsection \<open>The \<^verbatim>\<open>data:subscription\<close> listener\<close>

text \<open>
  \<^verbatim>\<open>subs[id]\<close> is tested for truthiness and then its \<^verbatim>\<open>.socket.send\<close> is called: a
  subscription object has a socket, anything else that is truthy has none.
\<close>

definition on_data_subscription :: "SubscriptionResponse \<Rightarrow> world \<Rightarrow> effect list" where
  "on_data_subscription payload w =
     (case get (subs w) (subs_proto w) (push_subscription payload) of
        Undefined \<Rightarrow> []
      | Entry subscription \<Rightarrow> socket_send w (sub_socket subscription) (Push payload)
      | Socket x \<Rightarrow> [TypeError]
      | Text s \<Rightarrow> if s = [] then [] else [TypeError]
      | Builtin \<Rightarrow> [TypeError])"

subsection \<open>Runs\<close>

text \<open>
  What can happen to the module, one listener (or piece of one) at a time. The
  collaborators an event meets are part of the event: their answers may change from
  one event to the next. \<^verbatim>\<open>State\<close> is the transport changing a socket's \<^verbatim>\<open>readyState\<close>.
\<close>

datatype event =
    Message env FrameWebSocket string
  | Known env FrameWebSocket ExtensionPayload FrameExtension bool
  | Trusted env FrameWebSocket RPCRequestPayload string bool
  | Answer env FrameWebSocket RPCRequestPayload string RPCResponsePayload
  | Close FrameWebSocket
  | Data SubscriptionResponse
  | Timeout nat
  | State nat ready_state

fun step :: "event \<Rightarrow> world \<Rightarrow> effect list \<times> world" where
  "step (Message e socket d) w = (let (effs, w', k) = on_message e socket d w in (effs, w'))"
| "step (Known e socket rawPayload ext known) w =
     (let (effs, w', k) = on_message_known e socket rawPayload ext known w in (effs, w'))"
| "step (Trusted e socket payload origin trusted) w =
     (let (effs, w', k) = on_message_trusted e socket payload origin trusted w in (effs, w'))"
| "step (Answer e socket payload origin response) w =
     send_callback e socket payload origin response w"
| "step (Close socket) w = on_close socket w"
| "step (Data payload) w = (on_data_subscription payload w, w)"
| "step (Timeout h) w = fire h w"
| "step (State r st) w = ([], w\<lparr>readyState := (readyState w)(r := st)\<rparr>)"

fun run :: "event list \<Rightarrow> world \<Rightarrow> effect list \<times> world" where
  "run [] w = ([], w)"
| "run (ev # evs) w =
     (let (effs, w') = step ev w; (effs', w'') = run evs w' in (effs @ effs', w''))"

definition pending :: "string \<Rightarrow> world \<Rightarrow> timeout list" where
  "pending originId w = filter (\<lambda>t. session_of t = originId) (timers w)"

subsection \<open>Sample collaborators and connections\<close>

text \<open>
  One set of collaborators, for evaluating the listeners on concrete frames: a chain
  id is taken from the request and is \<^verbatim>\<open>0x1\<close> when the request has none, the origin is
  its own identity, and a string is hex-prefixed when it is \<^verbatim>\<open>0x\<close> followed by hex digits.
\<close>

definition hex_prefixed :: "string \<Rightarrow> bool" where
  "hex_prefixed s = (take 2 s = ''0x'' \<and> list_all (\<lambda>c. c \<in> set ''0123456789abcdefABCDEF'') (drop 2 s))"

definition attach :: "ExtensionPayload \<Rightarrow> string \<Rightarrow> bool option \<Rightarrow> RPCRequestPayload \<times> string" where
  "attach p origin connecting =
     (\<lparr>rpc_id = raw_id p, rpc_jsonrpc = raw_jsonrpc p, rpc_method = raw_method p,
       rpc_params = raw_params p, rpc_chainId = raw_chainId p, rpc_origin = origin\<rparr>,
      case raw_chainId p of None \<Rightarrow> ''0x1'' | Some c \<Rightarrow> c)"

definition request :: "string \<Rightarrow> jsval list \<Rightarrow> string option \<Rightarrow> ExtensionPayload" where
  "request m ps c =
     \<lparr>raw_id = JNum 1, raw_jsonrpc = ''2.0'', raw_method = m, raw_params = ps, raw_chainId = c,
      raw_frameOrigin = None, raw_extensionConnecting = None\<rparr>"

definition sample_frames :: "string \<Rightarrow> ExtensionPayload option" where
  "sample_frames d =
     (if d = ''subscribe'' then Some (request ''eth_subscribe'' [JStr ''newHeads''] None)
      else if d = ''unsubscribe'' then Some (request ''eth_unsubscribe'' [JStr ''0xabc''] None)
      else if d = ''accounts'' then Some (request ''eth_requestAccounts'' [] None)
      else if d = ''summon'' then Some (request ''frame_summon'' [] None)
      else if d = ''chain'' then Some (request ''eth_chainId'' [] None)
      else if d = ''version'' then Some (request ''net_version'' [] None)
      else if d = ''chain 1'' then Some (request ''eth_chainId'' [] (Some ''1''))
      else if d = ''summon 1'' then Some (request ''frame_summon'' [] (Some ''1''))
      else if d = ''accounts 1'' then Some (request ''eth_requestAccounts'' [] (Some ''1''))
      else None)"

definition sample :: env where
  "sample =
     \<lparr>validPayload = sample_frames,
      parseOrigin = (\<lambda>r. case r of None \<Rightarrow> ''Unknown'' | Some s \<Rightarrow> s),
      updateOrigin = attach,
      isHexString = hex_prefixed,
      protectedMethods = [''eth_requestAccounts'', ''eth_sendTransaction''],
      getSelectedAddresses = [''0x22dd63c3619818fdbc262c78baee43cb61e9cccf''],
      LOG_TRAFFIC = None,
      parseInt16 = (\<lambda>s. if s = ''0x1'' then JNum 1 else JNull),
      toString = (\<lambda>v. ''[object Object]'')\<rparr>"

definition alice :: FrameWebSocket where
  "alice = \<lparr>ref = 0, sock_id = ''a1'', sock_origin = Some ''app.one'', sock_frameExtension = None\<rparr>"

definition bob :: FrameWebSocket where
  "bob = \<lparr>ref = 1, sock_id = ''b2'', sock_origin = Some ''app.two'', sock_frameExtension = None\<rparr>"

definition companion :: FrameWebSocket where
  "companion = \<lparr>ref = 2, sock_id = ''c3'', sock_origin = None,
                sock_frameExtension = Some \<lparr>ext_id = ''ldcoohedfbjoobcadoglnnmmfbdlmmhf''\<rparr>\<rparr>"

definition three_subs :: world where
  "three_subs = init\<lparr>subs :=
     [(''0xabc'', \<lparr>sub_originId = ''one'', sub_socket = alice\<rparr>),
      (''0xb'', \<lparr>sub_originId = ''two'', sub_socket = bob\<rparr>),
      (''0xc'', \<lparr>sub_originId = ''uno'', sub_socket = alice\<rparr>)]\<rparr>"

definition unsubscribe_abc :: RPCRequestPayload where
  "unsubscribe_abc = fst (attach (request ''eth_unsubscribe'' [JStr ''0xabc''] None) ''app.one'' None)"

definition subscribe_heads :: RPCRequestPayload where
  "subscribe_heads = fst (attach (request ''eth_subscribe'' [JStr ''newHeads''] None) ''app.one'' None)"

definition push_abc :: SubscriptionResponse where
  "push_abc = \<lparr>push_jsonrpc = ''2.0'', push_method = ''eth_subscription'',
               push_subscription = ''0xabc'', push_result = JStr ''0x10''\<rparr>"

text \<open>
  A connection subscribes and closes before the executor has answered; the answer,
  with the subscription id, comes after the \<^verbatim>\<open>close\<close> listener has run.
\<close>

definition closed_before_answer :: "event list" where
  "closed_before_answer =
     [Message sample alice ''subscribe'',
      State 0 CLOSED,
      Close alice,
      Answer sample alice subscribe_heads ''app.one''
        (result_response (JNum 1) ''2.0'' (JStr ''0xabc''))]"

definition request_accounts :: RPCRequestPayload where
  "request_accounts = fst (attach (request ''eth_requestAccounts'' [] None) ''app.one'' None)"

definition chrome :: FrameExtension where
  "chrome = \<lparr>ext_id = ''ldcoohedfbjoobcadoglnnmmfbdlmmhf''\<rparr>"



text \<open>
  What the two timer tables have in common in every run: the pending timers have
  distinct handles, all handed out already, and each is the one \<^verbatim>\<open>connectionMonitors\<close>
  holds for the origin whose session it ends.
\<close>

definition monitored :: "world \<Rightarrow> bool" where
  "monitored w =
     (distinct (map handle (timers w)) \<and>
      (\<forall>t \<in> set (timers w). handle t < next_handle w \<and>
                               connectionMonitors w (session_of t) = Some (handle t)))"

section \<open>Properties\<close>

subsection \<open>Closing a connection\<close>

lemma delete_filter: "AList.delete k tbl = filter (\<lambda>p. fst p \<noteq> k) tbl"
  by (induction tbl) auto

lemma filter_unbound: "map_of tbl k = None \<Longrightarrow> filter (\<lambda>p. fst p \<noteq> k) tbl = tbl"
  by (induction tbl) (auto split: if_splits)

lemma Object_entries_set: "set (Object_entries tbl) = set tbl"
  by (auto simp: Object_entries_def)

lemma Object_entries_keys:
  assumes "distinct (map fst tbl)"
  shows "distinct (map fst (Object_entries tbl))"
proof -
  from assms have d: "distinct tbl" and i: "inj_on fst (set tbl)"
    by (simp_all add: distinct_map)
  have "distinct (Object_entries tbl)"
    using d by (auto simp: Object_entries_def)
  moreover have "inj_on fst (set (Object_entries tbl))"
    using i by (simp add: Object_entries_set)
  ultimately show ?thesis by (simp add: distinct_map)
qed

lemma get_own: "distinct (map fst tbl) \<Longrightarrow> (k, s) \<in> set tbl \<Longrightarrow> get tbl proto k = Entry s"
  by (simp add: get_def)

lemma close_loop_entries:
  "distinct (map fst tbl) \<Longrightarrow> distinct (map fst ys) \<Longrightarrow> set ys \<subseteq> set tbl \<Longrightarrow>
   close_loop sid proto (map fst ys) tbl =
     (map (\<lambda>p. ProviderSend (unsubscribe_payload (fst p) (snd p)) None)
          (filter (\<lambda>p. sock_id (sub_socket (snd p)) = sid) ys),
      filter (\<lambda>p. \<not> (sock_id (sub_socket (snd p)) = sid \<and> p \<in> set ys)) tbl)"
proof (induction ys arbitrary: tbl)
  case Nil
  then show ?case by simp
next
  case (Cons y ys)
  obtain k s where y: "y = (k, s)" by (cases y)
  have mem: "(k, s) \<in> set tbl" using Cons.prems(3) by (simp add: y)
  have look: "get tbl proto k = Entry s"
    using Cons.prems(1) mem by (rule get_own)
  have fresh: "k \<notin> fst ` set ys" using Cons.prems(2) by (simp add: y)
  have only: "\<And>p. p \<in> set tbl \<Longrightarrow> fst p = k \<Longrightarrow> p = (k, s)"
    using Cons.prems(1) mem by (metis eq_key_imp_eq_value prod.collapse)
  show ?case
  proof (cases "sock_id (sub_socket s) = sid")
    case True
    let ?t = "AList.delete k tbl"
    have d: "distinct (map fst ?t)"
      using Cons.prems(1) by (simp add: delete_filter distinct_map_filter)
    have sub: "set ys \<subseteq> set ?t"
      using Cons.prems(3) fresh by (auto simp: delete_filter)
    have d2: "distinct (map fst ys)" using Cons.prems(2) by simp
    have pt: "(fst p \<noteq> k \<and> \<not> (sock_id (sub_socket (snd p)) = sid \<and> p \<in> set ys)) =
              (\<not> (sock_id (sub_socket (snd p)) = sid \<and> p \<in> set (y # ys)))"
      if "p \<in> set tbl" for p
    proof (cases "fst p = k")
      case True
      with that have "p = (k, s)" by (rule only)
      then show ?thesis using True \<open>sock_id (sub_socket s) = sid\<close> by (simp add: y)
    next
      case False
      then have "p \<noteq> y" by (auto simp: y)
      then show ?thesis using False by simp
    qed
    have "filter (\<lambda>p. \<not> (sock_id (sub_socket (snd p)) = sid \<and> p \<in> set ys))
            (filter (\<lambda>p. fst p \<noteq> k) tbl) =
          filter (\<lambda>p. fst p \<noteq> k \<and> \<not> (sock_id (sub_socket (snd p)) = sid \<and> p \<in> set ys)) tbl"
      by (simp only: filter_filter conj_commute)
    also have "\<dots> = filter (\<lambda>p. \<not> (sock_id (sub_socket (snd p)) = sid \<and> p \<in> set (y # ys))) tbl"
      using pt by (rule filter_cong [OF refl])
    finally have tab:
      "filter (\<lambda>p. \<not> (sock_id (sub_socket (snd p)) = sid \<and> p \<in> set ys)) ?t =
       filter (\<lambda>p. \<not> (sock_id (sub_socket (snd p)) = sid \<and> p \<in> set (y # ys))) tbl"
      by (simp only: delete_filter)
    show ?thesis
      using Cons.IH [OF d d2 sub] look True tab by (simp add: y)
  next
    case False
    have d2: "distinct (map fst ys)" using Cons.prems(2) by simp
    have sub: "set ys \<subseteq> set tbl" using Cons.prems(3) by simp
    have "(\<not> (sock_id (sub_socket (snd p)) = sid \<and> p \<in> set ys)) =
          (\<not> (sock_id (sub_socket (snd p)) = sid \<and> p \<in> set (y # ys)))" for p
      using False by (cases "p = y") (simp_all add: y)
    then have tab:
      "filter (\<lambda>p. \<not> (sock_id (sub_socket (snd p)) = sid \<and> p \<in> set ys)) tbl =
       filter (\<lambda>p. \<not> (sock_id (sub_socket (snd p)) = sid \<and> p \<in> set (y # ys))) tbl"
      by (simp only:)
    show ?thesis
      using Cons.IH [OF Cons.prems(1) d2 sub] look False tab by (simp add: y)
  qed
qed

lemma close_loop_table:
  assumes "distinct (map fst tbl)"
  shows "close_loop sid proto (Object_keys tbl) tbl =
     (map (\<lambda>p. ProviderSend (unsubscribe_payload (fst p) (snd p)) None)
          (filter (\<lambda>p. sock_id (sub_socket (snd p)) = sid) (Object_entries tbl)),
      filter (\<lambda>p. sock_id (sub_socket (snd p)) \<noteq> sid) tbl)"
proof -
  have "filter (\<lambda>p. \<not> (sock_id (sub_socket (snd p)) = sid \<and> p \<in> set (Object_entries tbl))) tbl
        = filter (\<lambda>p. sock_id (sub_socket (snd p)) \<noteq> sid) tbl"
    by (rule filter_cong [OF refl]) (simp add: Object_entries_set)
  then show ?thesis
    using close_loop_entries [OF assms Object_entries_keys [OF assms], of sid proto]
    by (simp add: Object_keys_def Object_entries_set)
qed



subsection \<open>Unsubscribing\<close>

lemma unsubscribe_each_filter:
  "unsubscribe_each e proto ps tbl = filter (\<lambda>p. fst p \<notin> property_key e ` set ps) tbl"
proof (induction ps arbitrary: tbl)
  case Nil
  then show ?case by (simp add: unsubscribe_each_def)
next
  case (Cons a ps)
  have del: "(if truthy_property (get tbl proto (property_key e a))
              then AList.delete (property_key e a) tbl else tbl)
             = filter (\<lambda>p. fst p \<noteq> property_key e a) tbl"
    by (cases "map_of tbl (property_key e a)")
       (simp_all add: get_def delete_filter filter_unbound)
  have "unsubscribe_each e proto (a # ps) tbl =
          unsubscribe_each e proto ps (filter (\<lambda>p. fst p \<noteq> property_key e a) tbl)"
    using del by (simp add: unsubscribe_each_def)
  also have "\<dots> = filter (\<lambda>p. fst p \<notin> property_key e ` set ps)
                      (filter (\<lambda>p. fst p \<noteq> property_key e a) tbl)"
    by (rule Cons.IH)
  also have "\<dots> = filter (\<lambda>p. fst p \<notin> property_key e ` set (a # ps)) tbl"
    by (auto intro: filter_cong)
  finally show ?case .
qed

text \<open>
  C2, as the claim has it, does not hold: the ids of a forwarded \<^verbatim>\<open>eth_unsubscribe\<close>
  are removed inside the callback of \<^verbatim>\<open>provider.send\<close>, under the test
  \<^verbatim>\<open>response && response.result\<close>. Here a connection asks to unsubscribe from an id it
  owns, the request is forwarded, the executor answers with an error, and the entry
  is still in the table.
\<close>

theorem unsubscribe_optimistic_counterexample:
  "fst (run [Message sample alice ''unsubscribe''] three_subs) =
     [ParseOrigin (Some ''app.one''),
      UpdateOrigin (request ''eth_unsubscribe'' [JStr ''0xabc''] None) ''app.one'' None,
      ProviderSend unsubscribe_abc (Some (alice, ''app.one''))]
   \<and> map_of (subs (snd (run [Message sample alice ''unsubscribe'',
                            Answer sample alice unsubscribe_abc ''app.one''
                              (error_response (JNum 1) ''2.0'' ''subscription not found'' (- 32000))]
                        three_subs))) ''0xabc''
       = Some \<lparr>sub_originId = ''one'', sub_socket = alice\<rparr>"
  by (simp add: on_message_def on_message_origin_def resolution_def sample_def sample_frames_def request_def
      attach_def hex_prefixed_def alice_def bob_def three_subs_def init_def extendSession_def
      clearTimeout_def logTraffic_def forward_def unsubscribe_abc_def send_callback_def
      error_response_def res_def Let_def)

text \<open>
  C2, amended. For a forwarded \<^verbatim>\<open>eth_unsubscribe\<close> request, the callback removes every
  id of the parameter list from the table when the executor's response has a truthy
  result, and leaves the table as it is when the response has an error or a falsy
  result; forwarding the request does not change the table, so an entry stays while
  no response has come.
\<close>

theorem unsubscribe_needs_result:
  assumes "rpc_method payload = ''eth_unsubscribe''"
  shows "subs (snd (send_callback e socket payload origin response w)) =
           (if truthy_result (res_result response)
            then filter (\<lambda>p. fst p \<notin> property_key e ` set (rpc_params payload)) (subs w)
            else subs w)
         \<and> subs (fst (snd (on_message_trusted e socket payload origin trusted w))) = subs w"
  using assms
  by (cases "res_result response")
     (simp_all add: send_callback_def on_message_trusted_def unsubscribe_each_filter Let_def)

theorem unsubscribe_needs_result_witness:
  "rpc_method unsubscribe_abc = ''eth_unsubscribe'' \<and>
   subs (snd (send_callback sample alice unsubscribe_abc ''app.one''
                (result_response (JNum 1) ''2.0'' (JBool True)) three_subs)) =
     [(''0xb'', \<lparr>sub_originId = ''two'', sub_socket = bob\<rparr>),
      (''0xc'', \<lparr>sub_originId = ''uno'', sub_socket = alice\<rparr>)] \<and>
   subs (snd (send_callback sample alice unsubscribe_abc ''app.one''
                (result_response (JNum 1) ''2.0'' (JBool False)) three_subs)) = subs three_subs"
proof -
  have m: "rpc_method unsubscribe_abc = ''eth_unsubscribe''"
    by (simp add: unsubscribe_abc_def attach_def request_def)
  have ps: "rpc_params unsubscribe_abc = [JStr ''0xabc'']"
    by (simp add: unsubscribe_abc_def attach_def request_def)
  show ?thesis
    using m
      unsubscribe_needs_result [OF m, of sample alice "''app.one''"
        "result_response (JNum 1) ''2.0'' (JBool True)" three_subs]
      unsubscribe_needs_result [OF m, of sample alice "''app.one''"
        "result_response (JNum 1) ''2.0'' (JBool False)" three_subs]
    by (simp add: ps result_response_def three_subs_def)
qed



subsection \<open>Pushes\<close>

lemma push_inherited_name:
  "map_of (subs w) (push_subscription payload) = None \<Longrightarrow>
   inherited (subs_proto w) (push_subscription payload) = Builtin \<Longrightarrow>
   on_data_subscription payload w = [TypeError]"
  by (simp add: on_data_subscription_def get_def)

lemma push_constructor:
  "on_data_subscription (payload\<lparr>push_subscription := ''constructor''\<rparr>) init = [TypeError]"
  by (simp add: on_data_subscription_def get_def inherited_def Object_prototype_def init_def)

lemma push_after_close_discarded:
  "readyState (snd (run closed_before_answer init)) (ref alice) = CLOSED
   \<and> map_of (subs (snd (run closed_before_answer init))) ''0xabc''
       = Some \<lparr>sub_originId = ''app.one'', sub_socket = alice\<rparr>
   \<and> on_data_subscription push_abc (snd (run closed_before_answer init)) = []"
  by (simp add: closed_before_answer_def on_message_def on_message_origin_def resolution_def
      sample_def sample_frames_def request_def attach_def hex_prefixed_def alice_def init_def
      extendSession_def clearTimeout_def logTraffic_def forward_def subscribe_heads_def
      send_callback_def result_response_def res_def Let_def on_close_def Object_keys_def
      Object_entries_def put_def get_def socket_send_def
      on_data_subscription_def push_abc_def)



subsection \<open>The checks of the \<^verbatim>\<open>message\<close> listener\<close>

lemma res_sends_only:
  "\<not> list_ex is_ProviderSend (res w socket r)" "\<not> list_ex is_identity (res w socket r)"
  "res w socket r \<noteq> [TypeError]"
  by (simp_all add: res_def)

lemma resolution_calls:
  "\<not> list_ex is_ProviderSend (resolution e socket p ro)"
  "\<not> list_ex is_SocketSend (resolution e socket p ro)"
  by (simp_all add: resolution_def)

lemma res_extendSession: "res (extendSession originId w) socket r = res w socket r"
  by (simp add: res_def extendSession_def)

lemma request_fields:
  "raw_id (request m ps c) = JNum 1" "raw_jsonrpc (request m ps c) = ''2.0''"
  "raw_method (request m ps c) = m" "raw_params (request m ps c) = ps"
  "raw_chainId (request m ps c) = c" "raw_frameOrigin (request m ps c) = None"
  "raw_extensionConnecting (request m ps c) = None"
  by (simp_all add: request_def)

lemmas sample_defs =
  sample_def sample_frames_def request_def attach_def hex_prefixed_def alice_def bob_def
  companion_def logTraffic_def resolution_def forward_def first_selected_def

text \<open>
  C5. A parsed message on a socket with an extension descriptor makes no call before
  \<^verbatim>\<open>isKnownExtension\<close> has answered. When the answer is false, the listener answers
  through \<^verbatim>\<open>res\<close> with an error of code 4001 whose message holds the id of the
  extension, and ends: \<^verbatim>\<open>parseOrigin\<close> and \<^verbatim>\<open>updateOrigin\<close> are not called, nothing is
  sent to the provider, and the world, the socket's \<^verbatim>\<open>readyState\<close> with it, is as before.
\<close>

theorem unknown_extension_rejected:
  assumes "validPayload e d = Some rawPayload"
    and "sock_frameExtension socket = Some ext"
  shows "on_message e socket d w = ([], w, Await_isKnownExtension socket rawPayload ext)
       \<and> on_message_known e' socket rawPayload ext False w1 =
           (res w1 socket
              \<lparr>res_id = raw_id rawPayload, res_jsonrpc = raw_jsonrpc rawPayload,
               res_result = None,
               res_error = Some
                 \<lparr>err_message =
                    ''Permission denied, approve connection from EvoTrade Companion with id ''
                      @ ext_id ext @ '' in Frame to continue'',
                  err_code = Some 4001\<rparr>\<rparr>,
            w1, Finished)
       \<and> \<not> list_ex is_identity (fst (on_message_known e' socket rawPayload ext False w1))
       \<and> \<not> list_ex is_ProviderSend (fst (on_message_known e' socket rawPayload ext False w1))"
  using assms
  by (simp add: on_message_def on_message_known_def unknown_extension_def error_response_def
      res_sends_only)

theorem unknown_extension_rejected_witness:
  "validPayload sample ''chain'' = Some (request ''eth_chainId'' [] None)
   \<and> sock_frameExtension companion = Some chrome
   \<and> on_message sample companion ''chain'' init
       = ([], init, Await_isKnownExtension companion (request ''eth_chainId'' [] None) chrome)
   \<and> on_message_known sample companion (request ''eth_chainId'' [] None) chrome False init =
       ([SocketSend 2 (Response
           \<lparr>res_id = JNum 1, res_jsonrpc = ''2.0'', res_result = None,
            res_error = Some
              \<lparr>err_message = ''Permission denied, approve connection from EvoTrade Companion with id ldcoohedfbjoobcadoglnnmmfbdlmmhf in Frame to continue'',
               err_code = Some 4001\<rparr>\<rparr>)],
        init, Finished)"
proof -
  have h1: "validPayload sample ''chain'' = Some (request ''eth_chainId'' [] None)"
    by (simp add: sample_def sample_frames_def)
  have h2: "sock_frameExtension companion = Some chrome"
    by (simp add: companion_def chrome_def)
  have r: "readyState init 2 = OPEN" "ref companion = 2"
    by (simp_all add: init_def companion_def)
  show ?thesis
    using h1 h2 unknown_extension_rejected [OF h1 h2, of init sample init]
    by (simp add: res_def r request_fields chrome_def)
qed

text \<open>
  C7. When the chain id \<^verbatim>\<open>updateOrigin\<close> returns is not a hex string, the listener
  answers through \<^verbatim>\<open>res\<close> with the id and version of the request and the error of code
  -1 whose message quotes the \<^verbatim>\<open>chainId\<close> of the request, and ends there: the world is
  unchanged (no session is extended), it does not wait for \<^verbatim>\<open>isTrusted\<close>, and nothing
  is sent to the provider.
\<close>

theorem invalid_chain_id_rejected:
  assumes "updateOrigin e rawPayload (parseOrigin e requestOrigin)
             (raw_extensionConnecting rawPayload) = (payload, chainId)"
    and "\<not> isHexString e chainId"
  shows "on_message_origin e socket rawPayload requestOrigin w =
           (resolution e socket rawPayload requestOrigin
            @ res w socket
                \<lparr>res_id = raw_id rawPayload, res_jsonrpc = raw_jsonrpc rawPayload,
                 res_result = None,
                 res_error = Some
                   \<lparr>err_message = ''Invalid chain id ('' @ interpolate (raw_chainId rawPayload)
                                     @ ''), chain id must be hex-prefixed string'',
                    err_code = Some (- 1)\<rparr>\<rparr>,
            w, Finished)
       \<and> \<not> list_ex is_ProviderSend (fst (on_message_origin e socket rawPayload requestOrigin w))"
  using assms
  by (simp add: on_message_origin_def Let_def invalid_chain_def error_response_def
      resolution_calls res_sends_only)

theorem invalid_chain_id_rejected_witness:
  "updateOrigin sample (request ''eth_chainId'' [] (Some ''1''))
     (parseOrigin sample (Some ''app.one''))
     (raw_extensionConnecting (request ''eth_chainId'' [] (Some ''1'')))
     = (fst (attach (request ''eth_chainId'' [] (Some ''1'')) ''app.one'' None), ''1'')
   \<and> \<not> isHexString sample ''1''
   \<and> on_message_origin sample alice (request ''eth_chainId'' [] (Some ''1'')) (Some ''app.one'') init =
       ([ParseOrigin (Some ''app.one''),
         UpdateOrigin (request ''eth_chainId'' [] (Some ''1'')) ''app.one'' None,
         SocketSend 0 (Response
           \<lparr>res_id = JNum 1, res_jsonrpc = ''2.0'', res_result = None,
            res_error = Some
              \<lparr>err_message = ''Invalid chain id (1), chain id must be hex-prefixed string'',
               err_code = Some (- 1)\<rparr>\<rparr>)],
        init, Finished)"
proof -
  have h1: "updateOrigin sample (request ''eth_chainId'' [] (Some ''1''))
              (parseOrigin sample (Some ''app.one''))
              (raw_extensionConnecting (request ''eth_chainId'' [] (Some ''1'')))
            = (fst (attach (request ''eth_chainId'' [] (Some ''1'')) ''app.one'' None), ''1'')"
    by (simp add: sample_def attach_def request_def)
  have h2: "\<not> isHexString sample ''1''"
    by (simp add: sample_def hex_prefixed_def)
  have r: "readyState init 0 = OPEN" "ref alice = 0"
    by (simp_all add: init_def alice_def)
  have c: "resolution sample alice (request ''eth_chainId'' [] (Some ''1'')) (Some ''app.one'')
           = [ParseOrigin (Some ''app.one''),
              UpdateOrigin (request ''eth_chainId'' [] (Some ''1'')) ''app.one'' None]"
    by (simp add: resolution_def logTraffic_def sample_def request_def)
  show ?thesis
    using h1 h2 invalid_chain_id_rejected [OF h1 h2, of alice init]
    by (simp add: res_def r c request_fields)
qed

text \<open>
  C8, as the claim has it, does not hold for every message of the sentinel identity:
  the chain id is checked before the three special methods are. A \<^verbatim>\<open>frame_summon\<close>
  with \<^verbatim>\<open>chainId: "1"\<close> from a known extension gets the error frame of code -1, and
  the tray is not toggled.
\<close>

theorem fast_path_invalid_chain_counterexample:
  "parseOrigin sample (Some ''frame-extension'') = ''frame-extension''
   \<and> run [Message sample companion ''summon 1'',
           Known sample companion (request ''frame_summon'' [] (Some ''1'')) chrome True] init =
       ([ParseOrigin (Some ''frame-extension''),
         UpdateOrigin (request ''frame_summon'' [] (Some ''1'')) ''frame-extension'' None,
         SocketSend 2 (Response
           \<lparr>res_id = JNum 1, res_jsonrpc = ''2.0'', res_result = None,
            res_error = Some
              \<lparr>err_message = ''Invalid chain id (1), chain id must be hex-prefixed string'',
               err_code = Some (- 1)\<rparr>\<rparr>)],
        init)"
  by (simp add: on_message_def on_message_known_def on_message_origin_def sample_defs chrome_def
      invalid_chain_def error_response_def res_def init_def Let_def)

text \<open>
  C8, amended. For a message whose origin is \<^verbatim>\<open>frame-extension\<close> and whose resolved
  chain id is a hex string: \<^verbatim>\<open>frame_summon\<close> toggles the tray and sends no frame;
  \<^verbatim>\<open>eth_chainId\<close> is answered through \<^verbatim>\<open>res\<close> with the chain id as result;
  \<^verbatim>\<open>net_version\<close> is answered through \<^verbatim>\<open>res\<close> with \<^verbatim>\<open>parseInt(chainId, 16)\<close>. In all
  three cases the listener ends without waiting for \<^verbatim>\<open>isTrusted\<close> and sends nothing
  to the provider.
\<close>

theorem extension_fast_paths:
  assumes "parseOrigin e requestOrigin = ''frame-extension''"
    and "updateOrigin e rawPayload ''frame-extension'' (raw_extensionConnecting rawPayload)
           = (payload, chainId)"
    and "isHexString e chainId"
  shows "(raw_method rawPayload = ''frame_summon'' \<longrightarrow>
            fst (on_message_origin e socket rawPayload requestOrigin w)
              = resolution e socket rawPayload requestOrigin @ [ToggleTray])
       \<and> (raw_method rawPayload = ''eth_chainId'' \<longrightarrow>
            fst (on_message_origin e socket rawPayload requestOrigin w)
              = resolution e socket rawPayload requestOrigin
                @ res w socket \<lparr>res_id = raw_id rawPayload, res_jsonrpc = raw_jsonrpc rawPayload,
                                res_result = Some (JStr chainId), res_error = None\<rparr>)
       \<and> (raw_method rawPayload = ''net_version'' \<longrightarrow>
            fst (on_message_origin e socket rawPayload requestOrigin w)
              = resolution e socket rawPayload requestOrigin
                @ res w socket \<lparr>res_id = raw_id rawPayload, res_jsonrpc = raw_jsonrpc rawPayload,
                                res_result = Some (parseInt16 e chainId), res_error = None\<rparr>)
       \<and> (raw_method rawPayload \<in> {''frame_summon'', ''eth_chainId'', ''net_version''} \<longrightarrow>
            snd (snd (on_message_origin e socket rawPayload requestOrigin w)) = Finished
            \<and> \<not> list_ex is_ProviderSend (fst (on_message_origin e socket rawPayload requestOrigin w)))"
  using assms
  by (simp add: on_message_origin_def Let_def result_response_def res_extendSession
      resolution_calls res_sends_only)

theorem extension_fast_paths_witness:
  "parseOrigin sample (Some ''frame-extension'') = ''frame-extension''
   \<and> updateOrigin sample (request ''eth_chainId'' [] None) ''frame-extension''
       (raw_extensionConnecting (request ''eth_chainId'' [] None))
       = (fst (attach (request ''eth_chainId'' [] None) ''frame-extension'' None), ''0x1'')
   \<and> isHexString sample ''0x1''
   \<and> fst (on_message_origin sample companion (request ''eth_chainId'' [] None)
            (Some ''frame-extension'') init) =
       [ParseOrigin (Some ''frame-extension''),
        UpdateOrigin (request ''eth_chainId'' [] None) ''frame-extension'' None,
        SocketSend 2 (Response
          \<lparr>res_id = JNum 1, res_jsonrpc = ''2.0'', res_result = Some (JStr ''0x1''),
           res_error = None\<rparr>)]"
proof -
  have h1: "parseOrigin sample (Some ''frame-extension'') = ''frame-extension''"
    by (simp add: sample_def)
  have h2: "updateOrigin sample (request ''eth_chainId'' [] None) ''frame-extension''
              (raw_extensionConnecting (request ''eth_chainId'' [] None))
            = (fst (attach (request ''eth_chainId'' [] None) ''frame-extension'' None), ''0x1'')"
    by (simp add: sample_def attach_def request_def)
  have h3: "isHexString sample ''0x1''"
    by (simp add: sample_def hex_prefixed_def)
  have r: "readyState init 2 = OPEN" "ref companion = 2"
    by (simp_all add: init_def companion_def)
  have c: "resolution sample companion (request ''eth_chainId'' [] None) (Some ''frame-extension'')
           = [ParseOrigin (Some ''frame-extension''),
              UpdateOrigin (request ''eth_chainId'' [] None) ''frame-extension'' None]"
    by (simp add: resolution_def logTraffic_def sample_def request_def)
  have m: "raw_method (request ''eth_chainId'' [] None) = ''eth_chainId''"
    by (simp add: request_def)
  show ?thesis
    using h1 h2 h3 extension_fast_paths [OF h1 h2 h3, of companion init]
    by (simp add: res_def r c request_fields)
qed

text \<open>
  C4, as the claim has it, does not hold for every message with a protected method:
  the chain id is checked before the trust gate is reached. A request for
  \<^verbatim>\<open>eth_requestAccounts\<close> with \<^verbatim>\<open>chainId: "1"\<close> is answered with the error of code -1
  and the listener ends without asking \<^verbatim>\<open>isTrusted\<close>, whatever it would have answered.
\<close>

theorem protected_invalid_chain_counterexample:
  "rpc_method (fst (attach (request ''eth_requestAccounts'' [] (Some ''1'')) ''app.one'' None))
     \<in> set (protectedMethods sample)
   \<and> on_message sample alice ''accounts 1'' init =
       ([ParseOrigin (Some ''app.one''),
         UpdateOrigin (request ''eth_requestAccounts'' [] (Some ''1'')) ''app.one'' None,
         SocketSend 0 (Response
           \<lparr>res_id = JNum 1, res_jsonrpc = ''2.0'', res_result = None,
            res_error = Some
              \<lparr>err_message = ''Invalid chain id (1), chain id must be hex-prefixed string'',
               err_code = Some (- 1)\<rparr>\<rparr>)],
        init, Finished)"
  by (simp add: on_message_def on_message_origin_def sample_defs invalid_chain_def
      error_response_def res_def init_def Let_def)

text \<open>
  C4, amended. A message that has passed the extension check, whose resolved chain
  id is a hex string, that is not one of the three requests the sentinel identity is
  answered for directly, and whose method is in \<^verbatim>\<open>protectedMethods\<close>, sends nothing to
  the provider and waits for \<^verbatim>\<open>isTrusted\<close>. When the answer is false, the listener
  answers through \<^verbatim>\<open>res\<close> with an error of code 4001, whose message names the origin
  \<^verbatim>\<open>parseOrigin\<close> returned, or says that no account is selected when the first selected
  address is missing; the world is left as it is and nothing is sent to the provider.
  The world and the collaborators at the resumption are any, whatever ran during the
  wait. The last two lines say how a message gets to this piece of the listener: at
  once on a socket without an extension, and after \<^verbatim>\<open>isKnownExtension\<close> has answered
  true on a socket with one.
\<close>

theorem trust_denied_not_forwarded:
  assumes "updateOrigin e rawPayload (parseOrigin e requestOrigin)
             (raw_extensionConnecting rawPayload) = (payload, chainId)"
    and "isHexString e chainId"
    and "\<not> (parseOrigin e requestOrigin = ''frame-extension''
            \<and> raw_method rawPayload \<in> {''frame_summon'', ''eth_chainId'', ''net_version''})"
    and "rpc_method payload \<in> set (protectedMethods e)"
  shows "on_message_origin e socket rawPayload requestOrigin w =
           (resolution e socket rawPayload requestOrigin,
            (if truthy_boolean (raw_extensionConnecting rawPayload) then w
             else extendSession (rpc_origin payload) w),
            Await_isTrusted socket payload (parseOrigin e requestOrigin))
       \<and> \<not> list_ex is_ProviderSend (resolution e socket rawPayload requestOrigin)
       \<and> on_message_trusted e' socket payload (parseOrigin e requestOrigin) False w2 =
           (res w2 socket
              \<lparr>res_id = rpc_id payload, res_jsonrpc = rpc_jsonrpc payload, res_result = None,
               res_error = Some
                 \<lparr>err_message =
                    (if truthy_string (first_selected e')
                     then ''Permission denied, approve '' @ parseOrigin e requestOrigin
                            @ '' in EvoTradeWallet to continue''
                     else ''No EvoTradeWallet account selected''),
                  err_code = Some 4001\<rparr>\<rparr>,
            w2, Finished)
       \<and> \<not> list_ex is_ProviderSend
            (fst (on_message_trusted e' socket payload (parseOrigin e requestOrigin) False w2))
       \<and> (validPayload e d = Some rawPayload \<and> sock_frameExtension socket = None \<longrightarrow>
            on_message e socket d w = on_message_origin e socket rawPayload (sock_origin socket) w)
       \<and> on_message_known e socket r ext True w =
           (if truthy_string (raw_frameOrigin r)
            then on_message_origin e socket (r\<lparr>raw_frameOrigin := None\<rparr>) (raw_frameOrigin r) w
            else on_message_origin e socket r (Some ''frame-extension'') w)"
proof -
  have a: "on_message_origin e socket rawPayload requestOrigin w =
             (resolution e socket rawPayload requestOrigin,
              (if truthy_boolean (raw_extensionConnecting rawPayload) then w
               else extendSession (rpc_origin payload) w),
              Await_isTrusted socket payload (parseOrigin e requestOrigin))"
    using assms by (auto simp add: on_message_origin_def Let_def)
  have b: "on_message_trusted e' socket payload (parseOrigin e requestOrigin) False w2 =
             (res w2 socket (trust_denied e' payload (parseOrigin e requestOrigin)), w2, Finished)"
    by (simp add: on_message_trusted_def)
  have c: "validPayload e d = Some rawPayload \<and> sock_frameExtension socket = None \<longrightarrow>
             on_message e socket d w = on_message_origin e socket rawPayload (sock_origin socket) w"
    by (simp add: on_message_def)
  have k: "on_message_known e socket r ext True w =
             (if truthy_string (raw_frameOrigin r)
              then on_message_origin e socket (r\<lparr>raw_frameOrigin := None\<rparr>) (raw_frameOrigin r) w
              else on_message_origin e socket r (Some ''frame-extension'') w)"
    by (simp add: on_message_known_def)
  show ?thesis
    unfolding a b
    using c k by (simp add: resolution_calls res_sends_only trust_denied_def error_response_def)
qed

theorem trust_denied_not_forwarded_witness:
  "updateOrigin sample (request ''eth_requestAccounts'' [] None)
     (parseOrigin sample (Some ''app.one''))
     (raw_extensionConnecting (request ''eth_requestAccounts'' [] None))
     = (request_accounts, ''0x1'')
   \<and> isHexString sample ''0x1''
   \<and> \<not> (parseOrigin sample (Some ''app.one'') = ''frame-extension''
          \<and> raw_method (request ''eth_requestAccounts'' [] None)
               \<in> {''frame_summon'', ''eth_chainId'', ''net_version''})
   \<and> rpc_method request_accounts \<in> set (protectedMethods sample)
   \<and> validPayload sample ''accounts'' = Some (request ''eth_requestAccounts'' [] None)
   \<and> sock_frameExtension alice = None
   \<and> on_message sample alice ''accounts'' init
       = ([ParseOrigin (Some ''app.one''),
           UpdateOrigin (request ''eth_requestAccounts'' [] None) ''app.one'' None],
          extendSession ''app.one'' init, Await_isTrusted alice request_accounts ''app.one'')
   \<and> on_message_trusted sample alice request_accounts ''app.one'' False init =
       ([SocketSend 0 (Response
           \<lparr>res_id = JNum 1, res_jsonrpc = ''2.0'', res_result = None,
            res_error = Some
              \<lparr>err_message = ''Permission denied, approve app.one in EvoTradeWallet to continue'',
               err_code = Some 4001\<rparr>\<rparr>)],
        init, Finished)
   \<and> on_message_trusted (sample\<lparr>getSelectedAddresses := []\<rparr>) alice request_accounts
         ''app.one'' False init =
       ([SocketSend 0 (Response
           \<lparr>res_id = JNum 1, res_jsonrpc = ''2.0'', res_result = None,
            res_error = Some
              \<lparr>err_message = ''No EvoTradeWallet account selected'', err_code = Some 4001\<rparr>\<rparr>)],
        init, Finished)"
proof -
  have h1: "updateOrigin sample (request ''eth_requestAccounts'' [] None)
              (parseOrigin sample (Some ''app.one''))
              (raw_extensionConnecting (request ''eth_requestAccounts'' [] None))
            = (request_accounts, ''0x1'')"
    by (simp add: sample_def attach_def request_def request_accounts_def)
  have h2: "isHexString sample ''0x1''"
    by (simp add: sample_def hex_prefixed_def)
  have h3: "\<not> (parseOrigin sample (Some ''app.one'') = ''frame-extension''
               \<and> raw_method (request ''eth_requestAccounts'' [] None)
                    \<in> {''frame_summon'', ''eth_chainId'', ''net_version''})"
    by (simp add: sample_def)
  have h4: "rpc_method request_accounts \<in> set (protectedMethods sample)"
    by (simp add: sample_def request_accounts_def attach_def request_def)
  have h5: "validPayload sample ''accounts'' = Some (request ''eth_requestAccounts'' [] None)"
    by (simp add: sample_def sample_frames_def)
  have h6: "sock_frameExtension alice = None"
    by (simp add: alice_def)
  have r: "readyState init 0 = OPEN" "ref alice = 0" "sock_origin alice = Some ''app.one''"
    by (simp_all add: init_def alice_def)
  have p: "parseOrigin sample (Some ''app.one'') = ''app.one''"
      "parseOrigin (sample\<lparr>getSelectedAddresses := []\<rparr>) (Some ''app.one'') = ''app.one''"
    by (simp_all add: sample_def)
  have c: "resolution sample alice (request ''eth_requestAccounts'' [] None) (Some ''app.one'')
           = [ParseOrigin (Some ''app.one''),
              UpdateOrigin (request ''eth_requestAccounts'' [] None) ''app.one'' None]"
    by (simp add: resolution_def logTraffic_def sample_def request_def)
  have f: "rpc_id request_accounts = JNum 1" "rpc_jsonrpc request_accounts = ''2.0''"
      "rpc_origin request_accounts = ''app.one''"
    by (simp_all add: request_accounts_def attach_def request_def)
  have s: "truthy_string (first_selected sample)"
      "\<not> truthy_string (first_selected (sample\<lparr>getSelectedAddresses := []\<rparr>))"
    by (simp_all add: first_selected_def sample_def)
  show ?thesis
    using h1 h2 h3 h4 h5 h6
      trust_denied_not_forwarded [OF h1 h2 h3 h4, of alice init sample init "''accounts''"]
      trust_denied_not_forwarded [OF h1 h2 h3 h4, of alice init
        "sample\<lparr>getSelectedAddresses := []\<rparr>" init "''accounts''"]
    by (simp add: res_def r p c f s request_fields)
qed

subsection \<open>Sessions\<close>

text \<open>
  C9, as the claim has it, does not hold: a message that is parsed and is not a
  handshake, but whose chain id is not a hex string, leaves the timers as they were,
  where \<^verbatim>\<open>extendSession\<close> would have started one.
\<close>

theorem session_not_extended_counterexample:
  "validPayload sample ''chain 1'' = Some (request ''eth_chainId'' [] (Some ''1''))
   \<and> \<not> truthy_boolean (raw_extensionConnecting (request ''eth_chainId'' [] (Some ''1'')))
   \<and> snd (run [Message sample alice ''chain 1''] init) = init
   \<and> timers init = []
   \<and> timers (extendSession ''app.one'' init)
       = [\<lparr>handle = 0, delay = 60000, session_of = ''app.one''\<rparr>]"
  by (simp add: on_message_def on_message_origin_def sample_defs
      invalid_chain_def error_response_def res_def init_def Let_def extendSession_def
      clearTimeout_def)

text \<open>
  C9, amended. The piece of the listener that follows the extension check applies
  \<^verbatim>\<open>extendSession\<close> once, to the \<^verbatim>\<open>_origin\<close> of the resolved payload, when the chain id
  is a hex string and the message is not flagged as a handshake, and leaves the world
  as it is otherwise. No other piece changes the world: not the resumption after
  \<^verbatim>\<open>isTrusted\<close>, not the rejection of an unknown extension, not a frame that does not
  parse or that waits for \<^verbatim>\<open>isKnownExtension\<close>.
\<close>

theorem session_extended_once:
  assumes "updateOrigin e rawPayload (parseOrigin e requestOrigin)
             (raw_extensionConnecting rawPayload) = (payload, chainId)"
  shows "fst (snd (on_message_origin e socket rawPayload requestOrigin w)) =
           (if isHexString e chainId \<and> \<not> truthy_boolean (raw_extensionConnecting rawPayload)
            then extendSession (rpc_origin payload) w else w)
       \<and> fst (snd (on_message_trusted e1 s1 p1 o1 t1 w1)) = w1
       \<and> fst (snd (on_message_known e2 s2 r2 x2 False w2)) = w2
       \<and> (validPayload e3 d3 = None \<or> sock_frameExtension s3 \<noteq> None \<longrightarrow>
            fst (snd (on_message e3 s3 d3 w3)) = w3)"
  using assms
  by (auto simp add: on_message_origin_def Let_def on_message_trusted_def on_message_known_def
      on_message_def split: option.splits)

theorem session_extended_once_witness:
  "updateOrigin sample (request ''eth_chainId'' [] None) (parseOrigin sample (Some ''app.one''))
     (raw_extensionConnecting (request ''eth_chainId'' [] None))
     = (fst (attach (request ''eth_chainId'' [] None) ''app.one'' None), ''0x1'')
   \<and> fst (snd (on_message_origin sample alice (request ''eth_chainId'' [] None)
                  (Some ''app.one'') init))
       = extendSession ''app.one'' init
   \<and> timers (extendSession ''app.one'' init)
       = [\<lparr>handle = 0, delay = 60000, session_of = ''app.one''\<rparr>]
   \<and> (validPayload sample ''garbage'' = None \<or> sock_frameExtension alice \<noteq> None)
   \<and> fst (snd (on_message sample alice ''garbage'' init)) = init"
proof -
  have h: "updateOrigin sample (request ''eth_chainId'' [] None)
             (parseOrigin sample (Some ''app.one''))
             (raw_extensionConnecting (request ''eth_chainId'' [] None))
           = (fst (attach (request ''eth_chainId'' [] None) ''app.one'' None), ''0x1'')"
    by (simp add: sample_def attach_def request_def)
  have g: "validPayload sample ''garbage'' = None \<or> sock_frameExtension alice \<noteq> None"
    by (simp add: sample_def sample_frames_def)
  have x: "isHexString sample ''0x1''"
      "\<not> truthy_boolean (raw_extensionConnecting (request ''eth_chainId'' [] None))"
      "rpc_origin (fst (attach (request ''eth_chainId'' [] None) ''app.one'' None)) = ''app.one''"
    by (simp_all add: sample_def hex_prefixed_def request_def attach_def)
  have t: "timers (extendSession ''app.one'' init)
             = [\<lparr>handle = 0, delay = 60000, session_of = ''app.one''\<rparr>]"
    by (simp add: extendSession_def init_def clearTimeout_def)
  show ?thesis
    using h g t
      session_extended_once [OF h, of alice init sample alice request_accounts "''app.one''"
        True init sample alice "request ''eth_chainId'' [] None" chrome init
        sample "''garbage''" alice init]
    by (simp add: x)
qed

lemma monitored_init: "monitored init"
  by (simp add: monitored_def init_def)

lemma monitored_subs [simp]: "monitored (w\<lparr>subs := x\<rparr>) = monitored w"
  by (simp add: monitored_def)

lemma monitored_subs_proto [simp]: "monitored (w\<lparr>subs_proto := x\<rparr>) = monitored w"
  by (simp add: monitored_def)

lemma monitored_readyState [simp]: "monitored (w\<lparr>readyState := x\<rparr>) = monitored w"
  by (simp add: monitored_def)

lemma set_clearTimeout: "set (clearTimeout k ts) \<subseteq> set ts"
  by (auto simp: clearTimeout_def split: option.splits)

lemma distinct_clearTimeout: "distinct (map handle ts) \<Longrightarrow> distinct (map handle (clearTimeout k ts))"
  by (simp add: clearTimeout_def distinct_map_filter split: option.splits)

lemma cleared:
  assumes "monitored w" and "t \<in> set (clearTimeout (connectionMonitors w originId) (timers w))"
  shows "session_of t \<noteq> originId"
proof
  assume s: "session_of t = originId"
  from assms(2) have m: "t \<in> set (timers w)" using set_clearTimeout by blast
  with assms(1) s have "connectionMonitors w originId = Some (handle t)"
    by (auto simp: monitored_def)
  with assms(2) show False by (simp add: clearTimeout_def)
qed

lemma monitored_extendSession:
  assumes "monitored w"
  shows "monitored (extendSession originId w)"
proof (cases "originId = []")
  case True
  then show ?thesis using assms by (simp add: extendSession_def)
next
  case False
  let ?ts = "clearTimeout (connectionMonitors w originId) (timers w)"
  have old: "\<forall>t \<in> set ?ts. handle t < next_handle w \<and> session_of t \<noteq> originId
               \<and> connectionMonitors w (session_of t) = Some (handle t)"
    using assms cleared set_clearTimeout by (fastforce simp: monitored_def)
  have d: "distinct (map handle ?ts)"
    using assms by (simp add: monitored_def distinct_clearTimeout)
  have fresh: "next_handle w \<notin> handle ` set ?ts"
    using old by auto
  show ?thesis
    using False old d fresh by (auto simp: monitored_def extendSession_def)
qed

lemma monitored_fire: "monitored w \<Longrightarrow> monitored (snd (fire h w))"
  by (auto simp: monitored_def fire_def distinct_map_filter)

lemma origin_world:
  "updateOrigin e rawPayload (parseOrigin e requestOrigin) (raw_extensionConnecting rawPayload)
     = (payload, chainId) \<Longrightarrow>
   fst (snd (on_message_origin e socket rawPayload requestOrigin w)) =
     (if isHexString e chainId \<and> \<not> truthy_boolean (raw_extensionConnecting rawPayload)
      then extendSession (rpc_origin payload) w else w)"
  by (simp add: on_message_origin_def Let_def)

lemma monitored_origin:
  assumes "monitored w"
  shows "monitored (fst (snd (on_message_origin e socket rawPayload requestOrigin w)))"
proof -
  obtain p c where u: "updateOrigin e rawPayload (parseOrigin e requestOrigin)
                         (raw_extensionConnecting rawPayload) = (p, c)"
    by (cases "updateOrigin e rawPayload (parseOrigin e requestOrigin)
                 (raw_extensionConnecting rawPayload)")
  show ?thesis
    using assms monitored_extendSession by (simp add: origin_world [OF u])
qed

lemma monitored_close: "monitored w \<Longrightarrow> monitored (snd (on_close socket w))"
  by (simp add: on_close_def split: prod.splits)

lemma monitored_callback:
  "monitored w \<Longrightarrow> monitored (snd (send_callback e socket payload origin response w))"
  by (simp add: send_callback_def put_def Let_def split: option.splits)

lemma monitored_step: "monitored w \<Longrightarrow> monitored (snd (step ev w))"
proof (cases ev)
  case (Message e socket d)
  assume "monitored w"
  then show ?thesis
    using monitored_origin [of w e socket _ "sock_origin socket"]
    by (simp add: Message on_message_def split_beta split: option.splits)
next
  case (Known e socket rawPayload ext known)
  assume "monitored w"
  then show ?thesis
    using monitored_origin [of w e socket]
    by (simp add: Known on_message_known_def split_beta)
next
  case (Trusted e socket payload origin trusted)
  assume "monitored w"
  then show ?thesis by (simp add: Trusted on_message_trusted_def)
next
  case (Answer e socket payload origin response)
  assume "monitored w"
  then show ?thesis by (simp add: Answer monitored_callback)
next
  case (Close socket)
  assume "monitored w"
  then show ?thesis by (simp add: Close monitored_close)
next
  case (Data payload)
  assume "monitored w"
  then show ?thesis by (simp add: Data)
next
  case (Timeout h)
  assume "monitored w"
  then show ?thesis by (simp add: Timeout monitored_fire)
next
  case (State r st)
  assume "monitored w"
  then show ?thesis by (simp add: State)
qed

lemma monitored_run: "monitored w \<Longrightarrow> monitored (snd (run evs w))"
proof (induction evs arbitrary: w)
  case Nil
  then show ?case by simp
next
  case (Cons ev evs)
  from Cons.prems have "monitored (snd (step ev w))" by (rule monitored_step)
  then have "monitored (snd (run evs (snd (step ev w))))" by (rule Cons.IH)
  then show ?case by (simp add: split_beta)
qed

lemma at_most_one: "distinct xs \<Longrightarrow> \<forall>x \<in> set xs. x = c \<Longrightarrow> length xs \<le> Suc 0"
  by (cases xs; cases "tl xs") auto

lemma monitored_pending:
  assumes "monitored w"
  shows "length (pending originId w) \<le> 1"
proof -
  have d: "distinct (map handle (pending originId w))"
    using assms by (simp add: monitored_def pending_def distinct_map_filter)
  have c: "\<forall>h \<in> set (map handle (pending originId w)).
             h = the (connectionMonitors w originId)"
    using assms by (auto simp: monitored_def pending_def)
  from at_most_one [OF d c] show ?thesis by simp
qed

lemma pending_extendSession:
  assumes "monitored w" and "originId \<noteq> []"
  shows "pending originId (extendSession originId w) =
           [\<lparr>handle = next_handle w, delay = 60000, session_of = originId\<rparr>]"
proof -
  have "filter (\<lambda>t. session_of t = originId)
          (clearTimeout (connectionMonitors w originId) (timers w)) = []"
    using cleared [OF assms(1)] by (auto simp: filter_empty_conv)
  then show ?thesis
    using assms(2) by (simp add: pending_def extendSession_def)
qed



lemma fire_extendSession:
  assumes "monitored w" and "originId \<noteq> []"
  shows "fst (fire (next_handle w) (extendSession originId w)) = [EndOriginSession originId]"
proof -
  have "\<forall>t \<in> set (clearTimeout (connectionMonitors w originId) (timers w)).
          handle t \<noteq> next_handle w"
    using assms(1) set_clearTimeout by (fastforce simp: monitored_def)
  then have "filter (\<lambda>t. handle t = next_handle w)
               (clearTimeout (connectionMonitors w originId) (timers w)) = []"
    by (simp add: filter_empty_conv)
  then show ?thesis
    using assms(2) by (simp add: fire_def extendSession_def)
qed

lemma extendSession_falsy: "extendSession [] w = w"
  by (simp add: extendSession_def)

text \<open>
  C6. After any run from the initial world, every identity has at most one pending
  timer. An identity is a non-empty string: \<^verbatim>\<open>extendSession\<close> takes a falsy \<^verbatim>\<open>originId\<close>
  for the absence of one and does nothing (\<open>extendSession_falsy\<close>). For an identity,
  \<^verbatim>\<open>extendSession\<close> cancels the timer pending for it and leaves exactly one, the new
  one, of 60000 ms; a second call leaves exactly one again, the second one; and when
  that timer fires, \<^verbatim>\<open>endOriginSession\<close> is called for the identity.
\<close>

theorem one_timer_per_identity:
  "length (pending originId (snd (run evs init))) \<le> 1
   \<and> (originId \<noteq> [] \<longrightarrow>
        pending originId (extendSession originId (snd (run evs init))) =
          [\<lparr>handle = next_handle (snd (run evs init)), delay = 60000, session_of = originId\<rparr>]
        \<and> pending originId (extendSession originId (extendSession originId (snd (run evs init)))) =
          [\<lparr>handle = Suc (next_handle (snd (run evs init))), delay = 60000,
            session_of = originId\<rparr>]
        \<and> fst (fire (Suc (next_handle (snd (run evs init))))
                 (extendSession originId (extendSession originId (snd (run evs init)))))
            = [EndOriginSession originId])"
proof -
  let ?w = "snd (run evs init)"
  have m: "monitored ?w" using monitored_init by (rule monitored_run)
  have m1: "monitored (extendSession originId ?w)" using m by (rule monitored_extendSession)
  have one: "length (pending originId ?w) \<le> 1" using m by (rule monitored_pending)
  have rest: "pending originId (extendSession originId ?w) =
                [\<lparr>handle = next_handle ?w, delay = 60000, session_of = originId\<rparr>]
            \<and> pending originId (extendSession originId (extendSession originId ?w)) =
                [\<lparr>handle = Suc (next_handle ?w), delay = 60000, session_of = originId\<rparr>]
            \<and> fst (fire (Suc (next_handle ?w))
                 (extendSession originId (extendSession originId ?w)))
                = [EndOriginSession originId]" if ne: "originId \<noteq> []"
  proof -
    have n: "next_handle (extendSession originId ?w) = Suc (next_handle ?w)"
      using ne by (simp add: extendSession_def)
    have p1: "pending originId (extendSession originId ?w) =
                [\<lparr>handle = next_handle ?w, delay = 60000, session_of = originId\<rparr>]"
      using m ne by (rule pending_extendSession)
    have p2: "pending originId (extendSession originId (extendSession originId ?w)) =
                [\<lparr>handle = Suc (next_handle ?w), delay = 60000, session_of = originId\<rparr>]"
      using pending_extendSession [OF m1 ne] n by simp
    have f: "fst (fire (Suc (next_handle ?w))
                   (extendSession originId (extendSession originId ?w)))
               = [EndOriginSession originId]"
      using fire_extendSession [OF m1 ne] n by simp
    show ?thesis using p1 p2 f by simp
  qed
  show ?thesis using one rest by blast
qed

theorem one_timer_per_identity_witness:
  "''app.one'' \<noteq> [] \<and>
   pending ''app.one'' (snd (run [Message sample alice ''subscribe''] init)) =
     [\<lparr>handle = 0, delay = 60000, session_of = ''app.one''\<rparr>] \<and>
   pending ''app.one''
     (extendSession ''app.one''
        (extendSession ''app.one'' (snd (run [Message sample alice ''subscribe''] init)))) =
     [\<lparr>handle = 2, delay = 60000, session_of = ''app.one''\<rparr>]"
proof -
  have w: "snd (run [Message sample alice ''subscribe''] init) =
             init\<lparr>timers := [\<lparr>handle = 0, delay = 60000, session_of = ''app.one''\<rparr>],
                  connectionMonitors := [''app.one'' \<mapsto> 0], next_handle := 1\<rparr>"
    by (simp add: on_message_def on_message_origin_def resolution_def sample_def
      sample_frames_def request_def attach_def hex_prefixed_def alice_def init_def
      extendSession_def clearTimeout_def logTraffic_def forward_def Let_def)
  show ?thesis
    unfolding w
    using one_timer_per_identity [of "''app.one''" "[Message sample alice ''subscribe'']",
        unfolded w]
    by (simp add: pending_def)
qed

subsection \<open>The subscription table in every run\<close>

text \<open>
  The keys of \<^verbatim>\<open>subs\<close> are distinct after any run from the initial world, which is
  what the property of the \<^verbatim>\<open>close\<close> listener asks of the table.
\<close>

lemma subs_extendSession: "subs (extendSession originId w) = subs w"
  by (simp add: extendSession_def)

lemma subs_origin: "subs (fst (snd (on_message_origin e socket rawPayload requestOrigin w))) = subs w"
proof -
  obtain p c where u: "updateOrigin e rawPayload (parseOrigin e requestOrigin)
                         (raw_extensionConnecting rawPayload) = (p, c)"
    by (cases "updateOrigin e rawPayload (parseOrigin e requestOrigin)
                 (raw_extensionConnecting rawPayload)")
  show ?thesis by (simp add: origin_world [OF u] subs_extendSession)
qed

lemma distinct_close:
  assumes "distinct (map fst (subs w))"
  shows "distinct (map fst (subs (snd (on_close socket w))))"
  using assms close_loop_table [OF assms, of "sock_id socket" "subs_proto w"]
  by (simp add: on_close_def distinct_map_filter)

lemma distinct_callback:
  assumes "distinct (map fst (subs w))"
  shows "distinct (map fst (subs (snd (send_callback e socket payload origin response w))))"
  using assms
  by (simp add: send_callback_def put_def Let_def unsubscribe_each_filter distinct_map_filter
      AList.distinct_update split: option.splits)

lemma distinct_step:
  assumes "distinct (map fst (subs w))"
  shows "distinct (map fst (subs (snd (step ev w))))"
proof (cases ev)
  case (Message e socket d)
  then show ?thesis
    using assms by (simp add: on_message_def split_beta subs_origin split: option.splits)
next
  case (Known e socket rawPayload ext known)
  then show ?thesis
    using assms by (simp add: on_message_known_def split_beta subs_origin)
next
  case (Trusted e socket payload origin trusted)
  then show ?thesis using assms by (simp add: on_message_trusted_def)
next
  case (Answer e socket payload origin response)
  then show ?thesis using assms by (simp add: distinct_callback)
next
  case (Close socket)
  then show ?thesis using assms by (simp add: distinct_close)
next
  case (Data payload)
  then show ?thesis using assms by simp
next
  case (Timeout h)
  then show ?thesis using assms by (simp add: fire_def)
next
  case (State r st)
  then show ?thesis using assms by simp
qed

lemma distinct_run:
  "distinct (map fst (subs w)) \<Longrightarrow> distinct (map fst (subs (snd (run evs w))))"
proof (induction evs arbitrary: w)
  case Nil
  then show ?case by simp
next
  case (Cons ev evs)
  from Cons.prems have "distinct (map fst (subs (snd (step ev w))))" by (rule distinct_step)
  then have "distinct (map fst (subs (snd (run evs (snd (step ev w))))))" by (rule Cons.IH)
  then show ?case by (simp add: split_beta)
qed

lemma distinct_reachable: "distinct (map fst (subs (snd (run evs init))))"
  by (rule distinct_run) (simp add: init_def)

end
